theory Spec2Isabelle
  imports Main "HOL-Library.Log_Nat"
begin

chapter \<open>A shallow embedding of the quote panel and the admin grid\<close>

text \<open>
  The development follows the two programs of the repository: \<^verbatim>\<open>mag_panel.py\<close> (the quote
  panel: reference index, option maps, templates and the summary table) and
  \<^verbatim>\<open>pg_admin_gui.py\<close> (the generic admin grid). Python values are modelled as follows.

  \<^item> A \<^verbatim>\<open>str\<close> is a \<^typ>\<open>string\<close>; \<^verbatim>\<open>None\<close> is the \<open>None\<close> of an option type. Characters are
    bytes, so the case mapping and the classes \<^verbatim>\<open>\d\<close> and whitespace are the ASCII ones.
  \<^item> A Python \<^verbatim>\<open>float\<close> is a rational number: parsing rounds to binary64, arithmetic is
    exact. The non-finite floats (\<^verbatim>\<open>inf\<close>, \<^verbatim>\<open>nan\<close>, overflow) have no value in the model.
  \<^item> An exception is a value: a conversion that raises returns \<open>None\<close> or \<open>Inl\<close>, and
    every \<^verbatim>\<open>try\<close>/\<^verbatim>\<open>except\<close> of the source is a case distinction.
\<close>

section \<open>Python strings and numbers\<close>

definition is_space :: "char \<Rightarrow> bool" where
  "is_space c = (c \<in> set [CHR 0x09, CHR 0x0A, CHR 0x0B, CHR 0x0C, CHR 0x0D,
                           CHR 0x1C, CHR 0x1D, CHR 0x1E, CHR 0x1F, CHR 0x20])"

text \<open>\<^verbatim>\<open>s.strip()\<close>\<close>

definition strip :: "string \<Rightarrow> string" where
  "strip s = rev (dropWhile is_space (rev (dropWhile is_space s)))"

definition is_digit :: "char \<Rightarrow> bool" where
  "is_digit c = (c \<in> set ''0123456789'')"

definition digit_val :: "char \<Rightarrow> int" where
  "digit_val c = of_char c - 48"

definition digit_char :: "int \<Rightarrow> char" where
  "digit_char n = ''0123456789'' ! nat n"

definition lower_char :: "char \<Rightarrow> char" where
  "lower_char c =
     (case map_of (zip ''ABCDEFGHIJKLMNOPQRSTUVWXYZ'' ''abcdefghijklmnopqrstuvwxyz'') c of
        None \<Rightarrow> c | Some d \<Rightarrow> d)"

text \<open>\<^verbatim>\<open>s.lower()\<close>\<close>

definition lower :: "string \<Rightarrow> string" where
  "lower s = map lower_char s"

text \<open>\<^verbatim>\<open>s.replace(",", ".")\<close>\<close>

definition comma_to_dot :: "string \<Rightarrow> string" where
  "comma_to_dot s = map (\<lambda>c. if c = CHR '','' then CHR ''.'' else c) s"

definition int_of_digits :: "string \<Rightarrow> int" where
  "int_of_digits ds = foldl (\<lambda>n c. 10 * n + digit_val c) 0 ds"

text \<open>\<^verbatim>\<open>str(n)\<close> for an integer.\<close>

function str_digits :: "int \<Rightarrow> string" where
  "str_digits n = (if n < 10 then [digit_char n]
                   else str_digits (n div 10) @ [digit_char (n mod 10)])"
  by pat_completeness auto
termination
  by (relation "measure nat") auto

definition str_int :: "int \<Rightarrow> string" where
  "str_int i = (if i < 0 then CHR ''-'' # str_digits (- i) else str_digits i)"

definition str_nat :: "nat \<Rightarrow> string" where
  "str_nat n = str_int (int n)"

subsection \<open>Floats\<close>

text \<open>
  Rounding of a rational to the nearest binary64 value, ties to even: 53 significant
  bits, exponents down to the subnormal \<open>2 ^ -1074\<close>, and no value (\<open>None\<close>) at or beyond
  \<open>2 ^ 1024\<close>, where Python's \<^verbatim>\<open>float\<close> returns \<^verbatim>\<open>inf\<close>.
\<close>

definition ilog2 :: "rat \<Rightarrow> int" where
  "ilog2 x = (let (a, b) = quotient_of x; d = bitlen a - bitlen b
              in if power_int 2 d \<le> x then d else d - 1)"

definition round_half_even :: "rat \<Rightarrow> int" where
  "round_half_even x =
     (let n = \<lfloor>x\<rfloor>; r = x - of_int n
      in if r < 1 / 2 then n else if 1 / 2 < r then n + 1 else if even n then n else n + 1)"

definition binary64_pos :: "rat \<Rightarrow> rat option" where
  "binary64_pos x =
     (if x = 0 then Some 0
      else let q = max (ilog2 x - 52) (- 1074);
               y = of_int (round_half_even (x / power_int 2 q)) * power_int 2 q
           in if 1024 \<le> ilog2 y then None else Some y)"

definition binary64 :: "rat \<Rightarrow> rat option" where
  "binary64 x = (if x < 0 then map_option uminus (binary64_pos (- x)) else binary64_pos x)"

text \<open>
  A run of digits in which single underscores may stand between digits, as
  \<^verbatim>\<open>float\<close> and \<^verbatim>\<open>int\<close> read it: the digits read so far, and the rest of the text.
\<close>

fun digitpart :: "string \<Rightarrow> string \<Rightarrow> string \<times> string" where
  "digitpart acc [] = (acc, [])"
| "digitpart acc (c # r) =
     (if is_digit c then digitpart (acc @ [c]) r
      else if c = CHR ''_'' \<and> acc \<noteq> [] \<and> r \<noteq> [] \<and> is_digit (hd r) then digitpart acc r
      else (acc, c # r))"

definition split_sign :: "string \<Rightarrow> bool \<times> string" where
  "split_sign t =
     (case t of
        [] \<Rightarrow> (False, [])
      | c # r \<Rightarrow> if c = CHR ''-'' then (True, r) else if c = CHR ''+'' then (False, r)
                 else (False, t))"

text \<open>The exponent of a float literal: \<open>None\<close> when an \<^verbatim>\<open>e\<close> is followed by no digits.\<close>

definition exponent_part :: "string \<Rightarrow> (int \<times> string) option" where
  "exponent_part r =
     (case r of
        [] \<Rightarrow> Some (0, [])
      | c # r' \<Rightarrow>
          if c = CHR ''e'' \<or> c = CHR ''E'' then
            (let (neg, u) = split_sign r'; (ds, rest) = digitpart [] u
             in if ds = [] then None
                else Some ((if neg then - int_of_digits ds else int_of_digits ds), rest))
          else Some (0, r))"

text \<open>
  The exact value of a decimal literal: a sign, digits with an optional fraction, and an
  optional exponent. \<open>None\<close> when the text is no such literal.
\<close>

definition decimal_literal :: "string \<Rightarrow> rat option" where
  "decimal_literal t =
     (let (neg, u) = split_sign t;
          (ip, r1) = digitpart [] u;
          (fp, r2) = (case r1 of [] \<Rightarrow> ([], [])
                      | c # r \<Rightarrow> if c = CHR ''.'' then digitpart [] r else ([], r1))
      in if ip = [] \<and> fp = [] then None
         else case exponent_part r2 of
                None \<Rightarrow> None
              | Some (e, r3) \<Rightarrow>
                  if r3 \<noteq> [] then None
                  else let m = of_int (int_of_digits (ip @ fp)) * power_int 10 (e - int (length fp))
                       in Some (if neg then - m else m))"

text \<open>
  \<^verbatim>\<open>float(s)\<close> for a string: the literal between surrounding whitespace, rounded.
  \<open>None\<close> is \<^verbatim>\<open>ValueError\<close>; it is also the result for the literals of the non-finite
  floats and for a literal that rounds to \<^verbatim>\<open>inf\<close>.
\<close>

definition py_float :: "string \<Rightarrow> rat option" where
  "py_float s = (case decimal_literal (strip s) of None \<Rightarrow> None | Some m \<Rightarrow> binary64 m)"

text \<open>\<^verbatim>\<open>f.is_integer()\<close> and \<^verbatim>\<open>int(f)\<close> (truncation towards zero).\<close>

definition is_integer :: "rat \<Rightarrow> bool" where
  "is_integer f = (of_int \<lfloor>f\<rfloor> = f)"

definition py_trunc :: "rat \<Rightarrow> int" where
  "py_trunc f = (if 0 \<le> f then \<lfloor>f\<rfloor> else \<lceil>f\<rceil>)"

section \<open>Part numbers and money (mag\_panel.py)\<close>

text \<open>
  The end of input as \<^verbatim>\<open>$\<close> sees it: the end of the string, or the position before a
  final newline.
\<close>

definition re_end :: "string \<Rightarrow> bool" where
  "re_end r = (r = [] \<or> r = [CHR 0x0A])"

text \<open>\<^verbatim>\<open>re.match(r"^(\d+)\.0$", s)\<close>: the group, when the text matches.\<close>

definition match_int_dot0 :: "string \<Rightarrow> string option" where
  "match_int_dot0 s =
     (let d = takeWhile is_digit s; r = dropWhile is_digit s
      in if d \<noteq> [] \<and> take 2 r = ''.0'' \<and> re_end (drop 2 r) then Some d else None)"

text \<open>\<^verbatim>\<open>re.match(r"^\d+(\.\d+)?$", s)\<close>\<close>

definition match_decimal :: "string \<Rightarrow> bool" where
  "match_decimal s =
     (let d = takeWhile is_digit s; r = dropWhile is_digit s
      in d \<noteq> [] \<and>
         (re_end r \<or>
          (take 1 r = ''.'' \<and> takeWhile is_digit (drop 1 r) \<noteq> [] \<and>
           re_end (dropWhile is_digit (drop 1 r)))))"

text \<open>
  \<^verbatim>\<open>norm_ref(x)\<close>. The argument is \<open>None\<close> or the text \<^verbatim>\<open>str(x)\<close> of the value.
\<close>

definition norm_ref :: "string option \<Rightarrow> string" where
  "norm_ref x =
     (case x of
        None \<Rightarrow> ''''
      | Some t \<Rightarrow>
          let s = comma_to_dot (strip t)
          in case match_int_dot0 s of
               Some g \<Rightarrow> g
             | None \<Rightarrow>
                 if match_decimal s then
                   (case py_float s of
                      None \<Rightarrow> s
                    | Some f \<Rightarrow> if is_integer f then str_int (py_trunc f) else s)
                 else s)"

text \<open>\<^verbatim>\<open>digits_only(s)\<close>: \<^verbatim>\<open>re.sub(r"\D", "", s or "")\<close>\<close>

definition digits_only :: "string \<Rightarrow> string" where
  "digits_only s = filter is_digit s"

text \<open>\<^verbatim>\<open>parse_money(s)\<close>\<close>

definition parse_money :: "string option \<Rightarrow> rat option" where
  "parse_money s = (case s of None \<Rightarrow> None | Some x \<Rightarrow> py_float (comma_to_dot (strip x)))"

text \<open>The format \<^verbatim>\<open>f"{x:.2f}"\<close> and \<^verbatim>\<open>fmt_money(x)\<close>.\<close>

definition fmt_2f :: "rat \<Rightarrow> string" where
  "fmt_2f x =
     (let c = round_half_even (\<bar>x\<bar> * 100);
          s = str_digits (c div 100) @ ''.'' @ [digit_char (c mod 100 div 10), digit_char (c mod 10)]
      in if x < 0 then CHR ''-'' # s else s)"

definition fmt_money :: "rat option \<Rightarrow> string" where
  "fmt_money x = (case x of None \<Rightarrow> '''' | Some v \<Rightarrow> fmt_2f v)"

section \<open>The reference index (mag\_panel.py)\<close>

text \<open>
  A record of the reference table \<^verbatim>\<open>EVE TIN ALL\<close>, as the two queries select it: the
  reference, the description, the pack size and the two prices. A value is the text
  \<^verbatim>\<open>str\<close> gives for it, and \<open>None\<close> is SQL \<^verbatim>\<open>NULL\<close> (also for a column that was not
  detected, which the queries select as \<^verbatim>\<open>NULL\<close>).
\<close>

record tin_rec =
  tin_ref :: "string option"
  tin_desc :: "string option"
  tin_pack :: "string option"
  tin_price_list :: "string option"
  tin_price_trimm :: "string option"

type_synonym tin_hit = "string \<times> string option \<times> string option \<times> string option"

text \<open>The tuple both \<^verbatim>\<open>_preload_all_db\<close> and \<^verbatim>\<open>_fetch_tin_by_pn\<close> build from a record.\<close>

definition tin_tuple :: "tin_rec \<Rightarrow> tin_hit" where
  "tin_tuple r =
     ((case tin_desc r of None \<Rightarrow> '''' | Some d \<Rightarrow> d), tin_pack r, tin_price_list r, tin_price_trimm r)"

definition empty_hit :: tin_hit where
  "empty_hit = ('''', None, None, None)"

text \<open>
  The loop of \<^verbatim>\<open>_preload_all_db\<close> over the reference table: every record with a
  reference is stored under its three keys, a later record replacing an earlier one.
\<close>

definition index_row :: "(string \<rightharpoonup> tin_hit) \<Rightarrow> tin_rec \<Rightarrow> (string \<rightharpoonup> tin_hit)" where
  "index_row idx r =
     (case tin_ref r of
        None \<Rightarrow> idx
      | Some ref \<Rightarrow> idx(norm_ref (Some ref) \<mapsto> tin_tuple r, strip ref \<mapsto> tin_tuple r,
                       digits_only ref \<mapsto> tin_tuple r))"

definition build_tin_index :: "tin_rec list \<Rightarrow> (string \<rightharpoonup> tin_hit)" where
  "build_tin_index rows = foldl index_row Map.empty rows"

subsection \<open>The query of \_fetch\_tin\_by\_pn\<close>

text \<open>
  The functions of PostgreSQL the \<^verbatim>\<open>WHERE\<close> clause uses. \<^verbatim>\<open>trim\<close> removes spaces;
  \<^verbatim>\<open>regexp_replace(ref, '\\D', '', 'g')\<close>, as the statement reaches the server, removes
  every backslash followed by \<^verbatim>\<open>D\<close>; the pattern of the numeric clause is not
  anchored at its end, so it asks for a digit after optional whitespace; and the cast to
  \<^verbatim>\<open>numeric\<close> raises an error on a text that is no number.
\<close>

definition pg_trim :: "string \<Rightarrow> string" where
  "pg_trim s = rev (dropWhile (\<lambda>c. c = CHR 0x20) (rev (dropWhile (\<lambda>c. c = CHR 0x20) s)))"

fun remove_bs_D :: "string \<Rightarrow> string" where
  "remove_bs_D (a # b # r) =
     (if a = CHR 0x5C \<and> b = CHR ''D'' then remove_bs_D r else a # remove_bs_D (b # r))"
| "remove_bs_D r = r"

definition pg_is_space :: "char \<Rightarrow> bool" where
  "pg_is_space c = (c \<in> set [CHR 0x09, CHR 0x0A, CHR 0x0B, CHR 0x0C, CHR 0x0D, CHR 0x20])"

definition pg_numeric_prefix :: "string \<Rightarrow> bool" where
  "pg_numeric_prefix s = (case dropWhile pg_is_space s of [] \<Rightarrow> False | c # _ \<Rightarrow> is_digit c)"

definition pg_numeric :: "string \<Rightarrow> rat option" where
  "pg_numeric s =
     decimal_literal (rev (dropWhile pg_is_space (rev (dropWhile pg_is_space s))))"

text \<open>
  The parameter \<^verbatim>\<open>pn_num\<close>: an \<^verbatim>\<open>int\<close> when the float is integral, the float otherwise,
  and \<open>None\<close> when \<^verbatim>\<open>float(pn_text)\<close> raises.
\<close>

datatype pynum = PyInt int | PyFloat rat

definition pn_num_of :: "string \<Rightarrow> pynum option" where
  "pn_num_of t =
     (case py_float t of
        None \<Rightarrow> None
      | Some f \<Rightarrow> Some (if is_integer f then PyInt (py_trunc f) else PyFloat f))"

text \<open>A numeric compared with an integer, or with a double precision parameter.\<close>

definition num_eq :: "rat \<Rightarrow> pynum \<Rightarrow> bool" where
  "num_eq x n = (case n of PyInt i \<Rightarrow> x = of_int i | PyFloat f \<Rightarrow> binary64 x = Some f)"

datatype db_error = DataError

text \<open>
  The \<^verbatim>\<open>WHERE\<close> clause on one record, its disjuncts from left to right. A \<^verbatim>\<open>NULL\<close>
  reference selects nothing.
\<close>

definition where_clause :: "string \<Rightarrow> string \<Rightarrow> pynum option \<Rightarrow> tin_rec \<Rightarrow> db_error + bool" where
  "where_clause pn_text pn_digits pn_num r =
     (case tin_ref r of
        None \<Rightarrow> Inr False
      | Some ref \<Rightarrow>
          if pg_trim ref = pn_text then Inr True
          else if remove_bs_D ref = pn_digits then Inr True
          else case pn_num of
                 None \<Rightarrow> Inr False
               | Some n \<Rightarrow>
                   if pg_numeric_prefix ref then
                     (case pg_numeric ref of None \<Rightarrow> Inl DataError | Some x \<Rightarrow> Inr (num_eq x n))
                   else Inr False)"

text \<open>\<^verbatim>\<open>LIMIT 1\<close>: the first record of the scan that the clause selects.\<close>

fun select_first :: "(tin_rec \<Rightarrow> db_error + bool) \<Rightarrow> tin_rec list \<Rightarrow> db_error + tin_rec option" where
  "select_first w [] = Inr None"
| "select_first w (r # rs) =
     (case w r of
        Inl e \<Rightarrow> Inl e
      | Inr b \<Rightarrow> if b then Inr (Some r) else select_first w rs)"

text \<open>
  \<^verbatim>\<open>_fetch_tin_by_pn(pn)\<close>. \<open>engine\<close> is \<open>None\<close> without a connection and otherwise holds
  the records of the reference table; an error of the query is caught and gives the empty
  result.
\<close>

definition fetch_tin_by_pn :: "tin_rec list option \<Rightarrow> string option \<Rightarrow> string \<Rightarrow> tin_hit" where
  "fetch_tin_by_pn engine ref_col pn =
     (case engine of
        None \<Rightarrow> empty_hit
      | Some recs \<Rightarrow>
          if pn = '''' \<or> ref_col = None \<or> ref_col = Some '''' then empty_hit
          else let pn_text = comma_to_dot (strip pn);
                   pn_digits = digits_only pn_text;
                   pn_num = pn_num_of pn_text
               in case select_first (where_clause pn_text pn_digits pn_num) recs of
                    Inl e \<Rightarrow> empty_hit
                  | Inr None \<Rightarrow> empty_hit
                  | Inr (Some r) \<Rightarrow> tin_tuple r)"

text \<open>\<^verbatim>\<open>a or b\<close> on two results of \<^verbatim>\<open>dict.get\<close> whose values are non-empty tuples.\<close>

definition or_else :: "'a option \<Rightarrow> 'a option \<Rightarrow> 'a option" where
  "or_else a b = (case a of None \<Rightarrow> b | Some x \<Rightarrow> Some x)"

text \<open>
  The lookup at the head of \<^verbatim>\<open>_add_row_by_pn\<close>: the query, and the index when the query
  gave no description.
\<close>

definition lookup_tin ::
  "tin_rec list option \<Rightarrow> string option \<Rightarrow> (string \<rightharpoonup> tin_hit) \<Rightarrow> string \<Rightarrow> tin_hit" where
  "lookup_tin engine ref_col idx pn =
     (let h = fetch_tin_by_pn engine ref_col pn
      in if fst h = '''' then
           (case or_else (idx pn) (or_else (idx (norm_ref (Some pn))) (idx (digits_only pn))) of
              None \<Rightarrow> h
            | Some hit \<Rightarrow> hit)
         else h)"

section \<open>Option maps (mag\_panel.py)\<close>






section \<open>Templates (mag\_panel.py)\<close>

text \<open>
  A value of the quantity column as the driver returns it, and a row of the table
  \<^verbatim>\<open>Templates\<close>: the type, the part number (as text) and the quantity.
\<close>

datatype db_value = DNull | DInt int | DNum rat | DText string

record tmpl_row =
  t_type :: "string option"
  t_pn :: "string option"
  t_qts :: db_value

text \<open>
  \<^verbatim>\<open>int(float(raw_qts)) if raw_qts is not None else 1\<close>, with \<^verbatim>\<open>q = 1\<close> when the conversion
  raises.
\<close>

definition qts_of :: "db_value \<Rightarrow> int" where
  "qts_of v =
     (case v of
        DNull \<Rightarrow> 1
      | DInt n \<Rightarrow> (case binary64 (of_int n) of None \<Rightarrow> 1 | Some f \<Rightarrow> py_trunc f)
      | DNum x \<Rightarrow> (case binary64 x of None \<Rightarrow> 1 | Some f \<Rightarrow> py_trunc f)
      | DText s \<Rightarrow> (case py_float s of None \<Rightarrow> 1 | Some f \<Rightarrow> py_trunc f))"

text \<open>\<^verbatim>\<open>self.templates.setdefault(key, []).append(v)\<close> on the dictionary, kept in insertion order.\<close>

fun tmpl_add ::
  "string \<Rightarrow> string \<times> int \<Rightarrow> (string \<times> (string \<times> int) list) list \<Rightarrow> (string \<times> (string \<times> int) list) list"
where
  "tmpl_add k v [] = [(k, [v])]"
| "tmpl_add k v ((k', l) # rest) =
     (if k = k' then (k', l @ [v]) # rest else (k', l) # tmpl_add k v rest)"


text \<open>One row of the loop in \<^verbatim>\<open>_preload_templates\<close>; \<open>has_qts\<close> says that a column Qts exists.\<close>

definition template_step ::
  "bool \<Rightarrow> (string \<times> (string \<times> int) list) list \<Rightarrow> tmpl_row \<Rightarrow> (string \<times> (string \<times> int) list) list"
where
  "template_step has_qts m row =
     (let t = strip (case t_type row of None \<Rightarrow> '''' | Some s \<Rightarrow> s);
          pn = norm_ref (t_pn row)
      in if t = '''' \<or> pn = '''' then m
         else let q = (if has_qts then qts_of (t_qts row) else 1);
                  key = lower t
              in tmpl_add key (pn, max 1 q) m)"

text \<open>
  \<^verbatim>\<open>_preload_templates\<close>. The source is \<open>None\<close> when there is no connection, no table or
  no Type and PN column; otherwise it says whether Qts exists and holds the rows.
\<close>

definition preload_templates :: "(bool \<times> tmpl_row list) option \<Rightarrow> (string \<times> (string \<times> int) list) list" where
  "preload_templates src =
     (case src of
        None \<Rightarrow> []
      | Some (has_qts, rows) \<Rightarrow> foldl (template_step has_qts) [] rows)"



section \<open>The summary table (mag\_panel.py)\<close>

text \<open>
  A \<^verbatim>\<open>QTableWidgetItem\<close>: its text and the data of the two user roles, \<open>None\<close> for a role
  that was never set.
\<close>

record item =
  item_text :: string
  data_base_trimm :: "rat option"
  data_list_price :: "rat option"

text \<open>\<^verbatim>\<open>QTableWidgetItem(t)\<close>\<close>

definition new_item :: "string \<Rightarrow> item" where
  "new_item t = \<lparr>item_text = t, data_base_trimm = None, data_list_price = None\<rparr>"

datatype col =
  COL_NO | COL_PN | COL_DESC | COL_QTY | COL_CTRL | COL_PACK | COL_PRICE_LIST | COL_PRICE_TRIMM

text \<open>A row of the table: the item of each of the eight columns, \<open>None\<close> where a cell has none.\<close>

record row =
  c_no :: "item option"
  c_pn :: "item option"
  c_desc :: "item option"
  c_qty :: "item option"
  c_ctrl :: "item option"
  c_pack :: "item option"
  c_price_list :: "item option"
  c_price_trimm :: "item option"

text \<open>The row \<^verbatim>\<open>insertRow\<close> adds.\<close>

definition empty_row :: row where
  "empty_row = \<lparr>c_no = None, c_pn = None, c_desc = None, c_qty = None, c_ctrl = None,
                 c_pack = None, c_price_list = None, c_price_trimm = None\<rparr>"

definition get_cell :: "col \<Rightarrow> row \<Rightarrow> item option" where
  "get_cell c r =
     (case c of COL_NO \<Rightarrow> c_no r | COL_PN \<Rightarrow> c_pn r | COL_DESC \<Rightarrow> c_desc r | COL_QTY \<Rightarrow> c_qty r
      | COL_CTRL \<Rightarrow> c_ctrl r | COL_PACK \<Rightarrow> c_pack r | COL_PRICE_LIST \<Rightarrow> c_price_list r
      | COL_PRICE_TRIMM \<Rightarrow> c_price_trimm r)"

definition set_cell :: "col \<Rightarrow> item option \<Rightarrow> row \<Rightarrow> row" where
  "set_cell c v r =
     (case c of COL_NO \<Rightarrow> r\<lparr>c_no := v\<rparr> | COL_PN \<Rightarrow> r\<lparr>c_pn := v\<rparr> | COL_DESC \<Rightarrow> r\<lparr>c_desc := v\<rparr>
      | COL_QTY \<Rightarrow> r\<lparr>c_qty := v\<rparr> | COL_CTRL \<Rightarrow> r\<lparr>c_ctrl := v\<rparr> | COL_PACK \<Rightarrow> r\<lparr>c_pack := v\<rparr>
      | COL_PRICE_LIST \<Rightarrow> r\<lparr>c_price_list := v\<rparr> | COL_PRICE_TRIMM \<Rightarrow> r\<lparr>c_price_trimm := v\<rparr>)"

text \<open>
  The fields of \<^verbatim>\<open>Panel\<close> that the operations below read or write: the table, the three
  spin boxes, the two labels (the formatted number of each; \<open>None\<close> is the dash of the
  margin), the flag \<^verbatim>\<open>_building_table\<close>, the caches, and with them the database tables
  the panel queries (\<open>engine\<close>, \<open>templates_source\<close>).
\<close>

record panel =
  table_rows :: "row list"
  discountSpin :: rat
  logisticsSpin :: rat
  kursSpin :: rat
  lbl_total :: string
  lbl_margin :: "string option"
  building_table :: bool
  engine :: "tin_rec list option"
  tin_ref_col :: "string option"
  tin_index :: "string \<rightharpoonup> tin_hit"
  options_cache :: "string \<times> string \<times> string option \<rightharpoonup> (string \<rightharpoonup> string)"
  current_mode :: string
  side_filter :: "string option"
  templates :: "(string \<times> (string \<times> int) list) list"
  templates_source :: "(bool \<times> tmpl_row list) option"

subsection \<open>Totals\<close>

text \<open>The three readings \<^verbatim>\<open>_recalc_totals\<close> takes of a row.\<close>

definition row_qty :: "row \<Rightarrow> int" where
  "row_qty r =
     (case c_qty r of
        None \<Rightarrow> 0
      | Some it \<Rightarrow>
          (case py_float (comma_to_dot (if item_text it = '''' then ''0'' else item_text it)) of
             None \<Rightarrow> 0
           | Some f \<Rightarrow> py_trunc f))"

definition row_list_pu :: "row \<Rightarrow> rat" where
  "row_list_pu r =
     (case c_price_list r of
        None \<Rightarrow> 0
      | Some it \<Rightarrow> (case data_list_price it of None \<Rightarrow> 0 | Some v \<Rightarrow> v))"

definition row_trm_base :: "row \<Rightarrow> rat" where
  "row_trm_base r =
     (case c_price_trimm r of
        None \<Rightarrow> 0
      | Some it \<Rightarrow> (case data_base_trimm it of None \<Rightarrow> 0 | Some v \<Rightarrow> v))"

text \<open>One turn of the loop: the two running sums.\<close>

definition totals_step :: "rat \<Rightarrow> rat \<times> rat \<Rightarrow> row \<Rightarrow> rat \<times> rat" where
  "totals_step L acc r =
     (fst acc + of_int (row_qty r) * row_list_pu r,
      snd acc + of_int (row_qty r) * row_trm_base r * L)"

text \<open>\<^verbatim>\<open>_recalc_totals\<close>\<close>

definition recalc_totals :: "panel \<Rightarrow> panel" where
  "recalc_totals p =
     (let disc = 1 - discountSpin p / 100;
          L = logisticsSpin p;
          K = kursSpin p;
          tot = foldl (totals_step L) (0, 0) (table_rows p);
          total_after_disc = fst tot * disc;
          total_after_disc_conv = total_after_disc * K;
          trm_total_conv = snd tot * K;
          margin_text =
            (if 0 < trm_total_conv
             then Some (fmt_2f ((total_after_disc_conv - trm_total_conv) / trm_total_conv * 100))
             else None)
      in p\<lparr>lbl_total := fmt_2f total_after_disc_conv, lbl_margin := margin_text\<rparr>)"

text \<open>\<^verbatim>\<open>_on_table_item_changed\<close>, the slot of the table's signal \<^verbatim>\<open>itemChanged\<close>.\<close>

definition on_table_item_changed :: "panel \<Rightarrow> panel" where
  "on_table_item_changed p = (if building_table p then p else recalc_totals p)"

text \<open>
  \<^verbatim>\<open>self.table.setItem(r, c, it)\<close>: the item is put into the cell and the table emits
  \<^verbatim>\<open>itemChanged\<close>, which runs the slot.
\<close>

definition set_item :: "nat \<Rightarrow> col \<Rightarrow> item \<Rightarrow> panel \<Rightarrow> panel" where
  "set_item r c it p =
     (if r < length (table_rows p)
      then on_table_item_changed
             (p\<lparr>table_rows := (table_rows p)[r := set_cell c (Some it) (table_rows p ! r)]\<rparr>)
      else p)"

subsection \<open>Row operations\<close>

text \<open>\<^verbatim>\<open>_renumber\<close>\<close>

definition renumber :: "panel \<Rightarrow> panel" where
  "renumber p =
     foldl (\<lambda>q r. set_item r COL_NO (new_item (str_nat (r + 1))) q) p [0..<length (table_rows p)]"

text \<open>\<^verbatim>\<open>_clear_cat_numbers\<close>\<close>

definition clear_cat_numbers :: "panel \<Rightarrow> panel" where
  "clear_cat_numbers p =
     foldl (\<lambda>q r. set_item r COL_PN (new_item '''') q) p [0..<length (table_rows p)]"

text \<open>
  The row \<^verbatim>\<open>_add_row_by_pn(pn, qty)\<close> builds from the lookup: the prices are parsed from
  the texts of the reference record and stored in the user roles of the two price items,
  0 standing for a price that is missing or no number.
\<close>

definition new_row :: "string \<Rightarrow> int \<Rightarrow> panel \<Rightarrow> row" where
  "new_row pn qty p =
     (case lookup_tin (engine p) (tin_ref_col p) (tin_index p) pn of
        (desc, pack, price_list_s, price_trm_s) \<Rightarrow>
          let list_price = parse_money price_list_s;
              trm_base = parse_money price_trm_s;
              trm_display = (case trm_base of None \<Rightarrow> None | Some b \<Rightarrow> Some (b * logisticsSpin p))
          in \<lparr>c_no = Some (new_item (str_nat (length (table_rows p) + 1))),
              c_pn = Some (new_item pn),
              c_desc = Some (new_item desc),
              c_qty = Some (new_item (str_int (max 1 qty))),
              c_ctrl = Some (new_item ''1''),
              c_pack = Some (new_item (case pack of None \<Rightarrow> '''' | Some s \<Rightarrow> s)),
              c_price_list = Some ((new_item (fmt_money list_price))
                \<lparr>data_list_price := Some (case list_price of None \<Rightarrow> 0 | Some v \<Rightarrow> v)\<rparr>),
              c_price_trimm = Some ((new_item (fmt_money trm_display))
                \<lparr>data_base_trimm := Some (case trm_base of None \<Rightarrow> 0 | Some v \<Rightarrow> v)\<rparr>)\<rparr>)"


text \<open>\<^verbatim>\<open>self.table.removeRow(r)\<close>; a row index beyond the table removes nothing.\<close>

definition remove_row :: "nat \<Rightarrow> row list \<Rightarrow> row list" where
  "remove_row r rows = take r rows @ drop (Suc r) rows"

text \<open>
  \<^verbatim>\<open>delete_selected\<close>, with \<open>sel\<close> the rows of the selected indexes: the rows are removed
  from the highest index down, then the table is renumbered and the totals recomputed.
\<close>

definition delete_selected :: "nat list \<Rightarrow> panel \<Rightarrow> panel" where
  "delete_selected sel p =
     recalc_totals (renumber
       (p\<lparr>table_rows := foldl (\<lambda>rows r. remove_row r rows) (table_rows p)
                           (rev (sorted_list_of_set (set sel)))\<rparr>))"

text \<open>The test \<^verbatim>\<open>it and it.text().strip()\<close> on the part number cell.\<close>

definition has_cat :: "row \<Rightarrow> bool" where
  "has_cat r = (case c_pn r of None \<Rightarrow> False | Some it \<Rightarrow> strip (item_text it) \<noteq> '''')"

text \<open>The first row index of \<^verbatim>\<open>range(rowCount - 1)\<close> that passes the test.\<close>

definition first_cat_row :: "row list \<Rightarrow> nat option" where
  "first_cat_row rows = find (\<lambda>r. has_cat (rows ! r)) [0..<length rows - 1]"

text \<open>
  The body of the loop in \<^verbatim>\<open>_move_row_with_cat_down\<close> for the row \<open>r\<close>: a row is
  inserted at \<open>r + 2\<close>, the items of row \<open>r\<close> are taken and set there, and row \<open>r\<close> is
  removed. (The signals of these \<^verbatim>\<open>setItem\<close> calls only write the two labels, which the
  \<^verbatim>\<open>_recalc_totals\<close> at the end of the operation writes again.)
\<close>

definition move_items :: "nat \<Rightarrow> row list \<Rightarrow> row list" where
  "move_items r rows =
     (let rows1 = take (r + 2) rows @ [empty_row] @ drop (r + 2) rows;
          rows2 = rows1[r + 2 := rows1 ! r, r := empty_row]
      in remove_row r rows2)"

definition move_row_with_cat_down :: "panel \<Rightarrow> panel" where
  "move_row_with_cat_down p =
     recalc_totals (renumber
       (p\<lparr>table_rows := (case first_cat_row (table_rows p) of
                            None \<Rightarrow> table_rows p
                          | Some r \<Rightarrow> move_items r (table_rows p))\<rparr>))"




subsection \<open>Applying a template\<close>



subsection \<open>Events\<close>

text \<open>
  What the widgets of the summary box report: an edit of a cell by the user, a click on
  one of the three row buttons (the deletion with the selected rows), and a new value of
  one of the three spin boxes.
\<close>

datatype event =
  ItemEdited nat col string
| ClearCatClicked
| MoveDownClicked
| DeleteClicked "nat list"
| DiscountEdited rat
| LogisticsEdited rat
| KursEdited rat

definition edit_item_text :: "string \<Rightarrow> item option \<Rightarrow> item" where
  "edit_item_text t v = (case v of None \<Rightarrow> new_item t | Some it \<Rightarrow> it\<lparr>item_text := t\<rparr>)"

text \<open>
  The reaction of the panel, by the connections \<^verbatim>\<open>_build_ui\<close> makes: the table's
  \<^verbatim>\<open>itemChanged\<close> runs \<^verbatim>\<open>_on_table_item_changed\<close>, and each button runs its method. No
  signal of a spin box is connected to a slot: the widget keeps the new value, and nothing
  else runs.
\<close>

definition handle_event :: "event \<Rightarrow> panel \<Rightarrow> panel" where
  "handle_event ev p =
     (case ev of
        ItemEdited r c t \<Rightarrow>
          if r < length (table_rows p)
          then on_table_item_changed
                 (p\<lparr>table_rows := (table_rows p)
                      [r := set_cell c (Some (edit_item_text t (get_cell c (table_rows p ! r))))
                              (table_rows p ! r)]\<rparr>)
          else p
      | ClearCatClicked \<Rightarrow> clear_cat_numbers p
      | MoveDownClicked \<Rightarrow> move_row_with_cat_down p
      | DeleteClicked sel \<Rightarrow> delete_selected sel p
      | DiscountEdited v \<Rightarrow> p\<lparr>discountSpin := v\<rparr>
      | LogisticsEdited v \<Rightarrow> p\<lparr>logisticsSpin := v\<rparr>
      | KursEdited v \<Rightarrow> p\<lparr>kursSpin := v\<rparr>)"

section \<open>Value coercion of the admin grid (pg\_admin\_gui.py)\<close>









section \<open>The totals in the words of the specification\<close>



section \<open>Identity and numbering of quote lines\<close>

text \<open>
  What the specification calls the identity of a line: the items of the part number,
  description, quantity, control flag, pack size and the two price cells (texts and stored
  prices), that is, every cell but the sequence number.
\<close>

definition identity_of ::
  "row \<Rightarrow> item option \<times> item option \<times> item option \<times> item option \<times> item option \<times> item option \<times> item option"
where
  "identity_of r = (c_pn r, c_desc r, c_qty r, c_ctrl r, c_pack r, c_price_list r, c_price_trimm r)"

text \<open>The sequence-number column of a table of \<open>n\<close> rows numbered 1 to \<open>n\<close>.\<close>

definition numbered :: "nat \<Rightarrow> item option list" where
  "numbered n = map (\<lambda>i. Some (new_item (str_nat (i + 1)))) [0..<n]"

text \<open>A list with the neighbours at \<open>r\<close> and \<open>r + 1\<close> exchanged.\<close>

definition swap_down :: "nat \<Rightarrow> 'a list \<Rightarrow> 'a list" where
  "swap_down r xs = xs[r := xs ! (r + 1), r + 1 := xs ! r]"

text \<open>The two prices a line stores, as the totals read them.\<close>

definition stored_prices :: "row \<Rightarrow> rat \<times> rat" where
  "stored_prices r = (row_list_pu r, row_trm_base r)"


section \<open>Matching a part number, in the words of the specification\<close>

text \<open>
  The three ways the specification lets a reference match a part number: the same
  trimmed text, the same digits-only text, or the same number.
\<close>

definition spec_matches :: "tin_rec \<Rightarrow> string \<Rightarrow> bool" where
  "spec_matches rec pn =
     (case tin_ref rec of
        None \<Rightarrow> False
      | Some ref \<Rightarrow>
          strip ref = strip pn \<or> digits_only ref = digits_only pn \<or>
          (case py_float ref of
             None \<Rightarrow> False
           | Some x \<Rightarrow> (case py_float pn of None \<Rightarrow> False | Some y \<Rightarrow> x = y)))"

text \<open>
  The match the index makes: one of the part number, its normal form and its digits is
  one of the three keys of the record.
\<close>

definition key_match :: "tin_rec \<Rightarrow> string \<Rightarrow> bool" where
  "key_match rec pn =
     (case tin_ref rec of
        None \<Rightarrow> False
      | Some ref \<Rightarrow>
          (\<exists>k\<in>set [pn, norm_ref (Some pn), digits_only pn].
             k \<in> set [norm_ref (Some ref), strip ref, digits_only ref]))"

section \<open>States for evaluation\<close>

text \<open>
  The panel as \<^verbatim>\<open>__init__\<close> and \<^verbatim>\<open>_build_ui\<close> leave it: an empty table, no discount,
  multiplier and rate 1, the labels \<^verbatim>\<open>0.00\<close> and the dash, no connection.
\<close>

definition init_panel :: panel where
  "init_panel =
     \<lparr>table_rows = [], discountSpin = 0, logisticsSpin = 1, kursSpin = 1,
      lbl_total = ''0.00'', lbl_margin = None, building_table = False,
      engine = None, tin_ref_col = None, tin_index = Map.empty, options_cache = Map.empty,
      current_mode = ''EVE'', side_filter = None, templates = [], templates_source = None\<rparr>"

text \<open>
  The caches after \<^verbatim>\<open>connect_db\<close> on a database with the given reference table (whose
  reference column was detected as \<open>ref_col\<close>) and template source.
\<close>

definition with_database ::
  "string \<Rightarrow> tin_rec list \<Rightarrow> (bool \<times> tmpl_row list) option \<Rightarrow> panel \<Rightarrow> panel" where
  "with_database ref_col recs src p =
     p\<lparr>engine := Some recs, tin_ref_col := Some ref_col, tin_index := build_tin_index recs,
       templates := preload_templates src, templates_source := src\<rparr>"

definition demo_tin :: "tin_rec list" where
  "demo_tin =
     [\<lparr>tin_ref = Some ''100'', tin_desc = Some ''Vent'', tin_pack = Some ''1'',
       tin_price_list = Some ''100'', tin_price_trimm = Some ''50''\<rparr>,
      \<lparr>tin_ref = Some ''12.0'', tin_desc = Some ''Mask'', tin_pack = None,
       tin_price_list = Some ''10,5'', tin_price_trimm = None\<rparr>]"

definition demo_templates :: "tmpl_row list" where
  "demo_templates =
     [\<lparr>t_type = Some ''EVE TR'', t_pn = Some ''100'', t_qts = DText ''3''\<rparr>,
      \<lparr>t_type = Some ''S'', t_pn = Some ''100'', t_qts = DInt 1\<rparr>,
      \<lparr>t_type = Some '' eve tr '', t_pn = Some ''12.0'', t_qts = DNull\<rparr>,
      \<lparr>t_type = Some ''EVE TR'', t_pn = None, t_qts = DInt 5\<rparr>,
      \<lparr>t_type = Some ''Eve Tr'', t_pn = Some ''A12'', t_qts = DInt 0\<rparr>]"

definition demo_panel :: panel where
  "demo_panel = with_database ''REF'' demo_tin (Some (True, demo_templates)) init_panel"

text \<open>
  A quote of two lines as \<^verbatim>\<open>_add_row_by_pn\<close> builds them, the quantity of the second
  edited to a text that is no number.
\<close>

definition demo_rows :: "row list" where
  "demo_rows =
     [\<lparr>c_no = Some (new_item ''1''), c_pn = Some (new_item ''100''),
       c_desc = Some (new_item ''Vent''), c_qty = Some (new_item ''2''),
       c_ctrl = Some (new_item ''1''), c_pack = Some (new_item ''1''),
       c_price_list = Some ((new_item ''100.00'')\<lparr>data_list_price := Some 100\<rparr>),
       c_price_trimm = Some ((new_item ''50.00'')\<lparr>data_base_trimm := Some 50\<rparr>)\<rparr>,
      \<lparr>c_no = Some (new_item ''2''), c_pn = Some (new_item ''12''),
       c_desc = Some (new_item ''Mask''), c_qty = Some (new_item ''abc''),
       c_ctrl = Some (new_item ''1''), c_pack = Some (new_item ''''),
       c_price_list = Some ((new_item ''10.50'')\<lparr>data_list_price := Some (21 / 2)\<rparr>),
       c_price_trimm = Some ((new_item '''')\<lparr>data_base_trimm := Some 0\<rparr>)\<rparr>]"

definition demo_quote :: panel where
  "demo_quote = recalc_totals (demo_panel\<lparr>table_rows := demo_rows\<rparr>)"

section \<open>Operations on the selected rows of the admin grid (pg\_admin\_gui.py)\<close>

text \<open>
  A row of a table as the grid caches it: the dictionary from column names to values,
  \<open>None\<close> for \<^verbatim>\<open>NULL\<close>. The state of \<^verbatim>\<open>App\<close>: the detected key column, the selected item
  ids, the cache of the displayed rows, the page (limit and offset), the messages shown so
  far, and with them the current table in the database: its rows and the columns of its
  primary key constraint.
\<close>

type_synonym 'v db_row = "string \<rightharpoonup> 'v option"

datatype message =
  InfoEditNeedsPk | InfoUseBulk | InfoBulkNeedsPk | InfoDeleteNeedsPk
| WarnNoPkValue | WarnNoPkValues | ErrorSave | ErrorBulk | ErrorDelete

record 'v app =
  current_pk :: "string option"
  selection :: "nat list"
  row_cache :: "nat \<rightharpoonup> 'v db_row"
  limit_var :: nat
  offset_var :: nat
  shown :: "message list"
  db_rows :: "'v db_row list"
  pk_columns :: "string list"

text \<open>\<^verbatim>\<open>_detect_single_pk\<close>, on the constrained columns of the primary key.\<close>

definition detect_single_pk :: "string list \<Rightarrow> string option" where
  "detect_single_pk cols = (case cols of [c] \<Rightarrow> Some c | _ \<Rightarrow> None)"

text \<open>
  \<^verbatim>\<open>refresh_rows\<close> for a table that loads: the key column is detected anew, and the page
  of rows is cached under the ids of the new tree items; nothing is selected afterwards.
\<close>

definition refresh_rows :: "'v app \<Rightarrow> 'v app" where
  "refresh_rows a =
     (let page = take (limit_var a) (drop (offset_var a) (db_rows a))
      in a\<lparr>current_pk := detect_single_pk (pk_columns a),
           row_cache := (\<lambda>i. if i < length page then Some (page ! i) else None),
           selection := []\<rparr>)"

text \<open>The test \<^verbatim>\<open>not self.current_pk\<close>, negated.\<close>

definition has_pk :: "'v app \<Rightarrow> bool" where
  "has_pk a = (case current_pk a of None \<Rightarrow> False | Some c \<Rightarrow> c \<noteq> '''')"

text \<open>The key values of the selected rows: \<^verbatim>\<open>row[pk]\<close> of every cached row that has the key.\<close>

definition pk_values :: "string \<Rightarrow> 'v app \<Rightarrow> 'v option list" where
  "pk_values pk a =
     List.map_filter (\<lambda>iid. case row_cache a iid of None \<Rightarrow> None | Some row \<Rightarrow> row pk)
       (selection a)"

text \<open>SQL \<^verbatim>\<open>pk IN (values)\<close> on a row: true for a key that is not \<^verbatim>\<open>NULL\<close> and among the values.\<close>

definition sql_in :: "'v option option \<Rightarrow> 'v option list \<Rightarrow> bool" where
  "sql_in x vals = (case x of Some (Some v) \<Rightarrow> Some v \<in> set vals | _ \<Rightarrow> False)"

datatype py_exn = AttributeError

text \<open>
  \<^verbatim>\<open>on_delete_selected\<close>. \<open>confirm\<close> is the answer to the question, \<open>table_ok\<close> says that
  the table loads, \<open>db_ok\<close> that the statement succeeds; a failure inside the \<^verbatim>\<open>try\<close> block
  shows an error.
\<close>

definition on_delete_selected :: "bool \<Rightarrow> bool \<Rightarrow> bool \<Rightarrow> 'v app \<Rightarrow> py_exn + 'v app" where
  "on_delete_selected confirm table_ok db_ok a =
     (if selection a = [] then Inr a
      else if \<not> has_pk a then Inr (a\<lparr>shown := shown a @ [InfoDeleteNeedsPk]\<rparr>)
      else if \<not> confirm then Inr a
      else case current_pk a of
        None \<Rightarrow> Inr a
      | Some pk \<Rightarrow>
          if table_ok \<and> db_ok
          then Inr (refresh_rows
                 (a\<lparr>db_rows := filter (\<lambda>row. \<not> sql_in (row pk) (pk_values pk a)) (db_rows a)\<rparr>))
          else Inr (a\<lparr>shown := shown a @ [ErrorDelete]\<rparr>))"

text \<open>
  \<^verbatim>\<open>on_bulk_update\<close>. \<open>dialog\<close> is what the user does in the dialog: \<open>None\<close> closes it,
  \<open>Some (c, v)\<close> applies the value \<open>v\<close> to the column \<open>c\<close>. Without a table the dialog's
  constructor raises.
\<close>

definition on_bulk_update ::
  "(string \<times> 'v option) option \<Rightarrow> bool \<Rightarrow> bool \<Rightarrow> 'v app \<Rightarrow> py_exn + 'v app" where
  "on_bulk_update dialog table_ok db_ok a =
     (if selection a = [] then Inr a
      else if \<not> has_pk a then Inr (a\<lparr>shown := shown a @ [InfoBulkNeedsPk]\<rparr>)
      else case current_pk a of
        None \<Rightarrow> Inr a
      | Some pk \<Rightarrow>
          if pk_values pk a = [] then Inr (a\<lparr>shown := shown a @ [WarnNoPkValues]\<rparr>)
          else if \<not> table_ok then Inl AttributeError
          else case dialog of
            None \<Rightarrow> Inr (refresh_rows a)
          | Some (c, v) \<Rightarrow>
              if db_ok
              then Inr (refresh_rows
                     (a\<lparr>db_rows := map (\<lambda>row. if sql_in (row pk) (pk_values pk a)
                                               then row(c \<mapsto> v) else row) (db_rows a)\<rparr>))
              else Inr (refresh_rows (a\<lparr>shown := shown a @ [ErrorBulk]\<rparr>)))"

text \<open>
  \<^verbatim>\<open>on_tree_double_click\<close>, which edits the first selected row. \<open>dialog\<close> is \<open>None\<close> when
  the user closes the dialog and the payload of the other columns when he saves.
\<close>

definition on_tree_double_click ::
  "(string \<rightharpoonup> 'v option) option \<Rightarrow> bool \<Rightarrow> bool \<Rightarrow> 'v app \<Rightarrow> py_exn + 'v app" where
  "on_tree_double_click dialog table_ok db_ok a =
     (case selection a of
        [] \<Rightarrow> Inr a
      | iid # _ \<Rightarrow>
          let row = (case row_cache a iid of None \<Rightarrow> Map.empty | Some r \<Rightarrow> r)
          in if \<not> has_pk a then Inr (a\<lparr>shown := shown a @ [InfoEditNeedsPk]\<rparr>)
             else case current_pk a of
               None \<Rightarrow> Inr a
             | Some pk \<Rightarrow>
                 (case row pk of
                    None \<Rightarrow> Inr (a\<lparr>shown := shown a @ [WarnNoPkValue]\<rparr>)
                  | Some None \<Rightarrow> Inr (a\<lparr>shown := shown a @ [WarnNoPkValue]\<rparr>)
                  | Some (Some pk_val) \<Rightarrow>
                      if \<not> table_ok then Inl AttributeError
                      else case dialog of
                        None \<Rightarrow> Inr (refresh_rows a)
                      | Some payload \<Rightarrow>
                          if db_ok
                          then Inr (refresh_rows
                                 (a\<lparr>db_rows := map (\<lambda>r. if r pk = Some (Some pk_val)
                                                         then r ++ payload else r) (db_rows a)\<rparr>))
                          else Inr (refresh_rows (a\<lparr>shown := shown a @ [ErrorSave]\<rparr>))))"

text \<open>\<^verbatim>\<open>on_edit_selected\<close>\<close>

definition on_edit_selected ::
  "(string \<rightharpoonup> 'v option) option \<Rightarrow> bool \<Rightarrow> bool \<Rightarrow> 'v app \<Rightarrow> py_exn + 'v app" where
  "on_edit_selected dialog table_ok db_ok a =
     (if selection a = [] then Inr a
      else if 1 < length (selection a) then Inr (a\<lparr>shown := shown a @ [InfoUseBulk]\<rparr>)
      else on_tree_double_click dialog table_ok db_ok a)"

text \<open>The rows of the database after an operation; those of before when it raised.\<close>

definition db_after :: "'v app \<Rightarrow> py_exn + 'v app \<Rightarrow> 'v db_row list" where
  "db_after a res = (case res of Inl e \<Rightarrow> db_rows a | Inr b \<Rightarrow> db_rows b)"

text \<open>A grid on a table with a key of two columns and one with a single key column.\<close>

definition demo_grid :: "string list \<Rightarrow> int app" where
  "demo_grid pk =
     refresh_rows
       \<lparr>current_pk = None, selection = [], row_cache = Map.empty, limit_var = 100, offset_var = 0,
        shown = [],
        db_rows = [[''id'' \<mapsto> Some 1, ''n'' \<mapsto> Some 10], [''id'' \<mapsto> Some 2, ''n'' \<mapsto> None]],
        pk_columns = pk\<rparr>"

chapter \<open>Properties\<close>

section \<open>Normalisation of part numbers\<close>

text \<open>
  Claim C9. \<^verbatim>\<open>norm_ref\<close> would be idempotent, with \<^verbatim>\<open>norm_ref(None) = ""\<close>. The second part
  holds; the first fails where the first pattern returns its group as it stands: the
  text \<^verbatim>\<open>007.0\<close> is normalised to \<^verbatim>\<open>007\<close>, and \<^verbatim>\<open>007\<close> in turn to \<^verbatim>\<open>7\<close> by the integer branch.
\<close>

theorem norm_ref_not_idempotent:
  "norm_ref None = '''' \<and>
   norm_ref (Some ''007.0'') = ''007'' \<and>
   norm_ref (Some (norm_ref (Some ''007.0''))) = ''7''"
  by code_simp

section \<open>Value coercion\<close>



section \<open>Totals and margin\<close>







section \<open>Option maps\<close>




section \<open>The table under the row operations\<close>

lemma table_rows_recalc_totals [simp]:
  "table_rows (recalc_totals p) = table_rows p"
  by (simp add: recalc_totals_def Let_def)

lemma table_rows_on_table_item_changed [simp]:
  "table_rows (on_table_item_changed p) = table_rows p"
  by (simp add: on_table_item_changed_def)

lemma table_rows_set_item:
  "table_rows (set_item r c it p) = (table_rows p)[r := set_cell c (Some it) (table_rows p ! r)]"
  by (simp add: set_item_def list_update_beyond)

lemma table_rows_foldl_set_item:
  "k \<le> length (table_rows p) \<Longrightarrow>
   table_rows (foldl (\<lambda>q r. set_item r c (g r) q) p [0..<k]) =
     map (\<lambda>i. if i < k then set_cell c (Some (g i)) (table_rows p ! i) else table_rows p ! i)
       [0..<length (table_rows p)]"
proof (induction k)
  case 0
  then show ?case by (simp add: map_nth)
next
  case (Suc k)
  let ?q = "foldl (\<lambda>q r. set_item r c (g r) q) p [0..<k]"
  from Suc have IH: "table_rows ?q =
      map (\<lambda>i. if i < k then set_cell c (Some (g i)) (table_rows p ! i) else table_rows p ! i)
        [0..<length (table_rows p)]"
    and k: "k < length (table_rows p)"
    by simp_all
  show ?case
    by (rule nth_equalityI) (use k in \<open>auto simp: table_rows_set_item IH nth_list_update\<close>)
qed

lemma table_rows_renumber:
  "table_rows (renumber p) =
     map (\<lambda>i. set_cell COL_NO (Some (new_item (str_nat (i + 1)))) (table_rows p ! i))
       [0..<length (table_rows p)]"
  unfolding renumber_def
  by (subst table_rows_foldl_set_item) simp_all

lemma length_renumber [simp]:
  "length (table_rows (renumber p)) = length (table_rows p)"
  by (simp add: table_rows_renumber)

lemma map_renumber_frame:
  assumes "\<And>v r. f (set_cell COL_NO v r) = f r"
  shows "map f (table_rows (renumber p)) = map f (table_rows p)"
  by (rule nth_equalityI) (simp_all add: table_rows_renumber assms)

lemma c_no_renumber:
  "map c_no (table_rows (renumber p)) = numbered (length (table_rows p))"
  by (simp add: table_rows_renumber numbered_def set_cell_def)

lemma identity_of_set_no [simp]:
  "identity_of (set_cell COL_NO v r) = identity_of r"
  by (simp add: identity_of_def set_cell_def)

lemma stored_prices_set_no [simp]:
  "stored_prices (set_cell COL_NO v r) = stored_prices r"
  by (simp add: stored_prices_def set_cell_def row_list_pu_def row_trm_base_def)

subsection \<open>Deleting rows from the highest index down\<close>

lemma nths_cong_below:
  assumes "\<And>i. i < length xs \<Longrightarrow> (i \<in> A) = (i \<in> B)"
  shows "nths xs A = nths xs B"
proof -
  have "filter (\<lambda>p. snd p \<in> A) (zip xs [0..<length xs]) =
      filter (\<lambda>p. snd p \<in> B) (zip xs [0..<length xs])"
    by (rule filter_cong) (auto simp: set_zip assms)
  then show ?thesis
    by (simp add: nths_def)
qed

lemma length_nths_le:
  "length (nths xs A) \<le> length xs"
proof -
  have "length (filter (\<lambda>p. snd p \<in> A) (zip xs [0..<length xs])) \<le> length (zip xs [0..<length xs])"
    by (rule length_filter_le)
  then show ?thesis
    by (simp add: nths_def)
qed

lemma remove_row_nths:
  assumes "\<forall>x\<in>S. d < x"
  shows "remove_row d (nths rows (- S)) = nths rows (- insert d S)"
proof (cases "d < length rows")
  case True
  have split: "rows = take d rows @ rows ! d # drop (Suc d) rows"
    using True by (simp add: id_take_nth_drop)
  have low: "nths (take d rows) (- S) = take d rows" "nths (take d rows) (- insert d S) = take d rows"
    using assms by (auto intro!: nths_all)
  have len: "length (take d rows) = d"
    using True by simp
  have "nths rows (- S) = take d rows @ rows ! d # nths (drop (Suc d) rows) {j. Suc (j + d) \<in> - S}"
    using assms True by (subst split) (auto simp: nths_append nths_Cons low min_def)
  moreover have "nths rows (- insert d S) =
      take d rows @ nths (drop (Suc d) rows) {j. Suc (j + d) \<in> - S}"
    using True by (subst split) (auto simp: nths_append nths_Cons low min_def)
  ultimately show ?thesis
    using True by (simp add: remove_row_def min_def)
next
  case False
  then have "nths rows (- insert d S) = nths rows (- S)"
    by (intro nths_cong_below) auto
  moreover have "remove_row d (nths rows (- S)) = nths rows (- S)"
    using False length_nths_le [of rows "- S"] by (simp add: remove_row_def)
  ultimately show ?thesis by simp
qed

lemma foldr_remove_row_nths:
  "sorted ds \<Longrightarrow> distinct ds \<Longrightarrow>
   foldr remove_row ds rows = nths rows (- set ds)"
proof (induction ds)
  case Nil
  then show ?case by (simp add: nths_all)
next
  case (Cons d ds)
  then have "\<forall>x\<in>set ds. d < x"
    by (auto simp: le_less)
  with Cons show ?case
    by (simp add: remove_row_nths)
qed

lemma delete_rows_nths:
  "foldl (\<lambda>rows r. remove_row r rows) rows (rev (sorted_list_of_set (set sel))) =
     nths rows {i. i \<notin> set sel}"
proof -
  have "foldl (\<lambda>rows r. remove_row r rows) rows (rev (sorted_list_of_set (set sel))) =
      foldr remove_row (sorted_list_of_set (set sel)) rows"
    by (simp add: foldl_conv_foldr)
  also have "\<dots> = nths rows (- set sel)"
    by (subst foldr_remove_row_nths) simp_all
  finally show ?thesis
    by (simp add: Compl_eq)
qed

subsection \<open>Moving a row down\<close>

lemma move_items_swap:
  assumes "r + 1 < length rows"
  shows "move_items r rows = swap_down r rows"
proof -
  obtain xs a b ys where rows: "rows = xs @ a # b # ys" and len: "length xs = r"
  proof
    show "rows = take r rows @ rows ! r # rows ! (r + 1) # drop (r + 2) rows"
      using assms by (simp add: id_take_nth_drop Cons_nth_drop_Suc)
    show "length (take r rows) = r"
      using assms by simp
  qed
  define rows1 where "rows1 = xs @ a # b # empty_row # ys"
  have ins: "take (r + 2) rows @ [empty_row] @ drop (r + 2) rows = rows1"
    by (simp add: rows len [symmetric] rows1_def)
  have src: "rows1 ! r = a"
    by (simp add: rows1_def len [symmetric] nth_append)
  have moved: "rows1[r + 2 := a, r := empty_row] = xs @ empty_row # b # a # ys"
    by (simp add: rows1_def len [symmetric] list_update_append)
  have removed: "remove_row r (xs @ empty_row # b # a # ys) = xs @ b # a # ys"
    by (simp add: remove_row_def len [symmetric])
  have swapped: "swap_down r rows = xs @ b # a # ys"
    by (simp add: swap_down_def rows len [symmetric] list_update_append nth_append)
  show ?thesis
    unfolding move_items_def Let_def ins src moved removed swapped ..
qed

lemma first_cat_row_Some:
  "first_cat_row rows = Some r \<Longrightarrow>
   r + 1 < length rows \<and> has_cat (rows ! r) \<and> (\<forall>j<r. \<not> has_cat (rows ! j))"
  by (auto simp: first_cat_row_def find_Some_iff)

lemma moved_rows:
  "(case first_cat_row rows of None \<Rightarrow> rows | Some r \<Rightarrow> move_items r rows) =
   (case first_cat_row rows of None \<Rightarrow> rows | Some r \<Rightarrow> swap_down r rows)"
  by (auto split: option.splits dest!: first_cat_row_Some simp: move_items_swap)

lemma map_swap_down:
  "r + 1 < length xs \<Longrightarrow> map f (swap_down r xs) = swap_down r (map f xs)"
  by (simp add: swap_down_def map_update)

lemma table_rows_delete_selected:
  "table_rows (delete_selected sel p) =
     table_rows (renumber (p\<lparr>table_rows := nths (table_rows p) {i. i \<notin> set sel}\<rparr>))"
  by (simp add: delete_selected_def delete_rows_nths)

lemma table_rows_move_row_with_cat_down:
  "table_rows (move_row_with_cat_down p) =
     table_rows (renumber (p\<lparr>table_rows :=
        (case first_cat_row (table_rows p) of
           None \<Rightarrow> table_rows p
         | Some r \<Rightarrow> swap_down r (table_rows p))\<rparr>))"
  by (simp add: move_row_with_cat_down_def moved_rows)

lemma length_swap_down [simp]:
  "length (swap_down r xs) = length xs"
  by (simp add: swap_down_def)

text \<open>
  Claim C7. After \<^verbatim>\<open>delete_selected\<close> the lines that were not selected remain, in their
  order, each with its identity; after \<^verbatim>\<open>_move_row_with_cat_down\<close> the lines are those of
  before, the first row with a part number among all rows but the last exchanged with its
  successor; and in both cases the sequence numbers are 1 to N in the new order.
\<close>

theorem delete_and_move_keep_identity:
  "map identity_of (table_rows (delete_selected sel p)) =
     nths (map identity_of (table_rows p)) {i. i \<notin> set sel} \<and>
   map c_no (table_rows (delete_selected sel p)) =
     numbered (length (table_rows (delete_selected sel p))) \<and>
   map identity_of (table_rows (move_row_with_cat_down p)) =
     (case first_cat_row (table_rows p) of
        None \<Rightarrow> map identity_of (table_rows p)
      | Some r \<Rightarrow> swap_down r (map identity_of (table_rows p))) \<and>
   map c_no (table_rows (move_row_with_cat_down p)) = numbered (length (table_rows p)) \<and>
   (\<forall>r. first_cat_row (table_rows p) = Some r \<longrightarrow>
      r + 1 < length (table_rows p) \<and> has_cat (table_rows p ! r) \<and>
      (\<forall>j<r. \<not> has_cat (table_rows p ! j)))"
proof (intro conjI allI impI)
  show "map identity_of (table_rows (delete_selected sel p)) =
      nths (map identity_of (table_rows p)) {i. i \<notin> set sel}"
    by (simp add: table_rows_delete_selected map_renumber_frame nths_map)
  show "map c_no (table_rows (delete_selected sel p)) =
      numbered (length (table_rows (delete_selected sel p)))"
    by (simp add: table_rows_delete_selected c_no_renumber)
  show "map identity_of (table_rows (move_row_with_cat_down p)) =
      (case first_cat_row (table_rows p) of
         None \<Rightarrow> map identity_of (table_rows p)
       | Some r \<Rightarrow> swap_down r (map identity_of (table_rows p)))"
    by (auto simp: table_rows_move_row_with_cat_down map_renumber_frame map_swap_down
        split: option.splits dest: first_cat_row_Some)
  show "map c_no (table_rows (move_row_with_cat_down p)) = numbered (length (table_rows p))"
    by (simp add: table_rows_move_row_with_cat_down c_no_renumber split: option.splits)
next
  fix r
  assume "first_cat_row (table_rows p) = Some r"
  then have *: "r + 1 < length (table_rows p) \<and> has_cat (table_rows p ! r) \<and>
      (\<forall>j<r. \<not> has_cat (table_rows p ! j))"
    by (rule first_cat_row_Some)
  from * show "r + 1 < length (table_rows p)" by simp
  from * show "has_cat (table_rows p ! r)" by simp
  fix j assume "j < r"
  with * show "\<not> has_cat (table_rows p ! j)" by simp
qed

theorem delete_and_move_keep_identity_witness:
  "map identity_of (table_rows (delete_selected [0] demo_quote)) = [identity_of (demo_rows ! 1)] \<and>
   map c_no (table_rows (delete_selected [0] demo_quote)) = [Some (new_item ''1'')] \<and>
   map identity_of (table_rows (move_row_with_cat_down demo_quote)) =
     [identity_of (demo_rows ! 1), identity_of (demo_rows ! 0)] \<and>
   map c_no (table_rows (move_row_with_cat_down demo_quote)) =
     [Some (new_item ''1''), Some (new_item ''2'')] \<and>
   has_cat (demo_rows ! 0)"
proof -
  note main = delete_and_move_keep_identity [of "[0]" demo_quote]
  have rows: "table_rows demo_quote = demo_rows"
    by (simp add: demo_quote_def)
  have two: "demo_rows = [demo_rows ! 0, demo_rows ! 1]"
    by (simp add: demo_rows_def)
  have first: "first_cat_row demo_rows = Some 0"
    by code_simp
  have numbers: "numbered (Suc 0) = [Some (new_item ''1'')]"
      "numbered 2 = [Some (new_item ''1''), Some (new_item ''2'')]"
    by code_simp+
  have kept: "nths (map identity_of demo_rows) {i. i \<notin> set [0]} = [identity_of (demo_rows ! 1)]"
    by (subst two) (simp add: nths_Cons)
  have del: "map identity_of (table_rows (delete_selected [0] demo_quote)) =
      [identity_of (demo_rows ! 1)]"
    using main kept by (simp add: rows)
  then have "length (table_rows (delete_selected [0] demo_quote)) = 1"
    by (metis length_map length_Cons list.size(3) One_nat_def)
  with main have no: "map c_no (table_rows (delete_selected [0] demo_quote)) = [Some (new_item ''1'')]"
    by (simp add: numbers)
  have swap: "swap_down 0 (map identity_of demo_rows) =
      [identity_of (demo_rows ! 1), identity_of (demo_rows ! 0)]"
    by (subst two) (simp add: swap_down_def)
  from main first have moved: "map identity_of (table_rows (move_row_with_cat_down demo_quote)) =
      [identity_of (demo_rows ! 1), identity_of (demo_rows ! 0)]"
    by (simp add: rows swap)
  have "length demo_rows = 2"
    by (simp add: demo_rows_def)
  with main have no2: "map c_no (table_rows (move_row_with_cat_down demo_quote)) =
      [Some (new_item ''1''), Some (new_item ''2'')]"
    by (simp add: rows numbers)
  from main first have "has_cat (demo_rows ! 0)"
    by (simp add: rows)
  with del no moved no2 show ?thesis by simp
qed

section \<open>Templates\<close>








subsection \<open>Appending the lines\<close>

lemma new_row_cells [simp]:
  "c_pn (new_row pn qty p) = Some (new_item pn)"
  "c_qty (new_row pn qty p) = Some (new_item (str_int (max 1 qty)))"
  by (simp_all add: new_row_def Let_def split: prod.splits)







section \<open>Stored prices\<close>



lemma stored_prices_edit [simp]:
  "stored_prices (set_cell c (Some (edit_item_text t (get_cell c r))) r) = stored_prices r"
  by (cases c)
    (simp_all add: stored_prices_def set_cell_def get_cell_def edit_item_text_def row_list_pu_def
      row_trm_base_def new_item_def split: option.splits)

lemma stored_prices_set_pn [simp]:
  "stored_prices (set_cell COL_PN v r) = stored_prices r"
  by (simp add: stored_prices_def set_cell_def row_list_pu_def row_trm_base_def)

lemma c_price_trimm_set_cell [simp]:
  "c_price_trimm (set_cell COL_PN v r) = c_price_trimm r"
  "c_price_trimm (set_cell COL_NO v r) = c_price_trimm r"
  by (simp_all add: set_cell_def)













section \<open>Recomputing the totals\<close>

lemma recalc_totals_idem:
  "recalc_totals (recalc_totals p) = recalc_totals p"
  by (simp add: recalc_totals_def Let_def)

lemma table_events_recompute:
  "recalc_totals (handle_event (DeleteClicked sel) p) = handle_event (DeleteClicked sel) p"
  "recalc_totals (handle_event MoveDownClicked p) = handle_event MoveDownClicked p"
  "\<not> building_table p \<Longrightarrow> r < length (table_rows p) \<Longrightarrow>
     recalc_totals (handle_event (ItemEdited r c t) p) = handle_event (ItemEdited r c t) p"
  by (simp_all add: handle_event_def delete_selected_def move_row_with_cat_down_def
      on_table_item_changed_def recalc_totals_idem)

text \<open>
  Claim C2. After every mutation of the lines or of the pricing parameters the displayed
  totals would reflect the new state. The events of the table do recompute them (lemma
  \<open>table_events_recompute\<close>). A new value of a spin box does not: no slot is connected to
  the discount, the multiplier or the rate, so the labels keep the values of the old
  parameters. For the quote of two lines: the total 200.00 stays when the discount becomes
  50 % (recomputing gives 100.00) and when the rate becomes 2 (400.00), and the margin
  100.00 % stays when the multiplier becomes 2 (0.00 %).
\<close>

theorem spin_change_leaves_totals_stale:
  "lbl_total demo_quote = ''200.00'' \<and> lbl_margin demo_quote = Some ''100.00'' \<and>
   lbl_total (handle_event (DiscountEdited 50) demo_quote) = ''200.00'' \<and>
   lbl_total (recalc_totals (handle_event (DiscountEdited 50) demo_quote)) = ''100.00'' \<and>
   lbl_total (handle_event (KursEdited 2) demo_quote) = ''200.00'' \<and>
   lbl_total (recalc_totals (handle_event (KursEdited 2) demo_quote)) = ''400.00'' \<and>
   lbl_margin (handle_event (LogisticsEdited 2) demo_quote) = Some ''100.00'' \<and>
   lbl_margin (recalc_totals (handle_event (LogisticsEdited 2) demo_quote)) = Some ''0.00''"
proof -
  have a: "lbl_total demo_quote = ''200.00''" "lbl_margin demo_quote = Some ''100.00''"
    by code_simp+
  have b: "lbl_total (recalc_totals (demo_quote\<lparr>discountSpin := 50\<rparr>)) = ''100.00''"
    by code_simp
  have c: "lbl_total (recalc_totals (demo_quote\<lparr>kursSpin := 2\<rparr>)) = ''400.00''"
    by code_simp
  have d: "lbl_margin (recalc_totals (demo_quote\<lparr>logisticsSpin := 2\<rparr>)) = Some ''0.00''"
    by code_simp
  show ?thesis
    using a b c d by (simp add: handle_event_def)
qed

section \<open>The admin grid and the primary key\<close>

lemma db_rows_refresh_rows [simp]:
  "db_rows (refresh_rows a) = db_rows a"
  by (simp add: refresh_rows_def Let_def)

lemma detect_single_pk_iff:
  "detect_single_pk cols = Some c \<longleftrightarrow> cols = [c]"
  by (auto simp: detect_single_pk_def split: list.splits)

lemma has_pk_single:
  assumes "current_pk a = detect_single_pk (pk_columns a)" and "has_pk a"
  shows "length (pk_columns a) = 1"
proof -
  from assms obtain c where "detect_single_pk (pk_columns a) = Some c"
    by (auto simp: has_pk_def split: option.splits)
  then show ?thesis
    by (simp add: detect_single_pk_iff)
qed

lemma delete_needs_pk:
  "db_after a (on_delete_selected confirm t d a) \<noteq> db_rows a \<Longrightarrow> has_pk a"
  by (auto simp: on_delete_selected_def db_after_def split: if_splits option.splits)

lemma bulk_needs_pk:
  "db_after a (on_bulk_update dlg t d a) \<noteq> db_rows a \<Longrightarrow> has_pk a"
  by (auto simp: on_bulk_update_def db_after_def split: if_splits option.splits prod.splits)

lemma double_click_needs_pk:
  "db_after a (on_tree_double_click dlg t d a) \<noteq> db_rows a \<Longrightarrow> has_pk a"
  by (auto simp: on_tree_double_click_def db_after_def Let_def
      split: if_splits option.splits list.splits)

lemma edit_needs_pk:
  "db_after a (on_edit_selected dlg t d a) \<noteq> db_rows a \<Longrightarrow> has_pk a"
  using double_click_needs_pk [of a dlg t d]
  by (auto simp: on_edit_selected_def db_after_def split: if_splits)

lemma no_pk_messages:
  assumes "\<not> has_pk a"
  shows "selection a \<noteq> [] \<Longrightarrow>
           on_delete_selected confirm t d a = Inr (a\<lparr>shown := shown a @ [InfoDeleteNeedsPk]\<rparr>)"
    and "selection a \<noteq> [] \<Longrightarrow>
           on_bulk_update dlg t d a = Inr (a\<lparr>shown := shown a @ [InfoBulkNeedsPk]\<rparr>)"
    and "length (selection a) = 1 \<Longrightarrow>
           on_edit_selected dlg' t d a = Inr (a\<lparr>shown := shown a @ [InfoEditNeedsPk]\<rparr>)"
  using assms
  by (auto simp: on_delete_selected_def on_bulk_update_def on_edit_selected_def
      on_tree_double_click_def Let_def split: list.splits)

text \<open>
  Claim C8. With the key column the grid detected for the current table: an edit of
  the one selected row, a bulk update over the selected rows and a deletion of the selected
  rows change the database only when the primary key of the table has exactly one column;
  when it has not, each of them shows its informational message and leaves the database as
  it is. (With nothing selected the three operations return at once.)
\<close>

theorem single_pk_guard:
  assumes "current_pk a = detect_single_pk (pk_columns a)"
  shows "(db_after a (on_delete_selected confirm t d a) \<noteq> db_rows a \<longrightarrow> length (pk_columns a) = 1) \<and>
         (db_after a (on_bulk_update dlg t d a) \<noteq> db_rows a \<longrightarrow> length (pk_columns a) = 1) \<and>
         (db_after a (on_edit_selected dlg' t d a) \<noteq> db_rows a \<longrightarrow> length (pk_columns a) = 1) \<and>
         (length (pk_columns a) \<noteq> 1 \<and> selection a \<noteq> [] \<longrightarrow>
            on_delete_selected confirm t d a = Inr (a\<lparr>shown := shown a @ [InfoDeleteNeedsPk]\<rparr>) \<and>
            on_bulk_update dlg t d a = Inr (a\<lparr>shown := shown a @ [InfoBulkNeedsPk]\<rparr>)) \<and>
         (length (pk_columns a) \<noteq> 1 \<and> length (selection a) = 1 \<longrightarrow>
            on_edit_selected dlg' t d a = Inr (a\<lparr>shown := shown a @ [InfoEditNeedsPk]\<rparr>)) \<and>
         (detect_single_pk cols = Some c \<longleftrightarrow> cols = [c]) \<and>
         current_pk (refresh_rows a) = detect_single_pk (pk_columns a)"
proof -
  note single = has_pk_single [OF assms]
  have none: "\<not> has_pk a" if "length (pk_columns a) \<noteq> 1"
    using that single by blast
  have del: "db_after a (on_delete_selected confirm t d a) \<noteq> db_rows a \<longrightarrow> length (pk_columns a) = 1"
    using delete_needs_pk [of a confirm t d] single by blast
  have bulk: "db_after a (on_bulk_update dlg t d a) \<noteq> db_rows a \<longrightarrow> length (pk_columns a) = 1"
    using bulk_needs_pk [of a dlg t d] single by blast
  have edit: "db_after a (on_edit_selected dlg' t d a) \<noteq> db_rows a \<longrightarrow> length (pk_columns a) = 1"
    using edit_needs_pk [of a dlg' t d] single by blast
  have msg: "length (pk_columns a) \<noteq> 1 \<and> selection a \<noteq> [] \<longrightarrow>
      on_delete_selected confirm t d a = Inr (a\<lparr>shown := shown a @ [InfoDeleteNeedsPk]\<rparr>) \<and>
      on_bulk_update dlg t d a = Inr (a\<lparr>shown := shown a @ [InfoBulkNeedsPk]\<rparr>)"
    using no_pk_messages(1) [of a confirm t d] no_pk_messages(2) [of a dlg t d] none by blast
  have msg_edit: "length (pk_columns a) \<noteq> 1 \<and> length (selection a) = 1 \<longrightarrow>
      on_edit_selected dlg' t d a = Inr (a\<lparr>shown := shown a @ [InfoEditNeedsPk]\<rparr>)"
    using no_pk_messages(3) [of a dlg' t d] none by blast
  have detect: "detect_single_pk cols = Some c \<longleftrightarrow> cols = [c]"
    by (rule detect_single_pk_iff)
  have refresh: "current_pk (refresh_rows a) = detect_single_pk (pk_columns a)"
    by (simp add: refresh_rows_def Let_def)
  from del bulk edit msg msg_edit detect refresh show ?thesis
    by (intro conjI)
qed

theorem single_pk_guard_witness:
  "on_delete_selected True True True ((demo_grid [''id'', ''n''])\<lparr>selection := [0]\<rparr>) =
     Inr ((demo_grid [''id'', ''n''])\<lparr>selection := [0], shown := [InfoDeleteNeedsPk]\<rparr>) \<and>
   on_edit_selected None True True ((demo_grid [''id'', ''n''])\<lparr>selection := [0]\<rparr>) =
     Inr ((demo_grid [''id'', ''n''])\<lparr>selection := [0], shown := [InfoEditNeedsPk]\<rparr>) \<and>
   db_after ((demo_grid [''id''])\<lparr>selection := [0]\<rparr>)
     (on_delete_selected True True True ((demo_grid [''id''])\<lparr>selection := [0]\<rparr>)) =
     [[''id'' \<mapsto> Some 2, ''n'' \<mapsto> None]] \<and>
   length (pk_columns ((demo_grid [''id''])\<lparr>selection := [0]\<rparr>)) = 1"
proof -
  let ?g2 = "(demo_grid [''id'', ''n''])\<lparr>selection := [0]\<rparr>"
  let ?g1 = "(demo_grid [''id''])\<lparr>selection := [0]\<rparr>"
  have pk2: "current_pk ?g2 = detect_single_pk (pk_columns ?g2)"
    and pk1: "current_pk ?g1 = detect_single_pk (pk_columns ?g1)"
    by (simp_all add: demo_grid_def refresh_rows_def Let_def)
  have sel2: "length (pk_columns ?g2) \<noteq> 1 \<and> selection ?g2 \<noteq> []"
      "length (pk_columns ?g2) \<noteq> 1 \<and> length (selection ?g2) = 1"
    by (simp_all add: demo_grid_def refresh_rows_def Let_def)
  have shown2: "shown ?g2 = []"
    by (simp add: demo_grid_def refresh_rows_def Let_def)
  have deleted: "db_after ?g1 (on_delete_selected True True True ?g1) =
      [[''id'' \<mapsto> Some 2, ''n'' \<mapsto> None]]"
    by (simp add: demo_grid_def refresh_rows_def Let_def on_delete_selected_def db_after_def
        has_pk_def detect_single_pk_def pk_values_def List.map_filter_def sql_in_def)
  then have changed: "db_after ?g1 (on_delete_selected True True True ?g1) \<noteq> db_rows ?g1"
    by (simp add: demo_grid_def refresh_rows_def Let_def)
  from single_pk_guard [OF pk2, of True True True None None] sel2
  have "on_delete_selected True True True ?g2 = Inr (?g2\<lparr>shown := shown ?g2 @ [InfoDeleteNeedsPk]\<rparr>)"
    and "on_edit_selected None True True ?g2 = Inr (?g2\<lparr>shown := shown ?g2 @ [InfoEditNeedsPk]\<rparr>)"
    by blast+
  moreover from single_pk_guard [OF pk1, of True True True None None] changed
  have "length (pk_columns ?g1) = 1"
    by blast
  ultimately show ?thesis
    using deleted by (simp add: shown2)
qed

end
